theory Spec2Isabelle
  imports Main
begin

section \<open>JavaScript values\<close>

text \<open>
  The values a producer may hand to \<open>cache\<close> are the ones that survive
  \<^verbatim>\<open>JSON.stringify -> JSON.parse\<close> (the comment above \<open>cache\<close> in the source), so the
  value universe is the JSON-like fragment of JavaScript, plus \<open>undefined\<close> and \<open>NaN\<close>.
  \<open>JNum\<close> carries the integer-valued numbers; an object is its list of properties in
  enumeration order.
\<close>

datatype jsval =
    JUndefined
  | JNull
  | JBool bool
  | JNum int
  | JNaN
  | JStr string
  | JArr "jsval list"
  | JObj "(string \<times> jsval) list"

text \<open>A thrown value: an \<open>Error\<close> object with its constructor name and its message.\<close>

datatype exn = Exn (exn_name: string) (message: string)

definition TypeError :: "string \<Rightarrow> exn" where
  "TypeError msg = Exn ''TypeError'' msg"

text \<open>ECMAScript \<open>ToBoolean\<close>: what \<^verbatim>\<open>if (x)\<close>, \<^verbatim>\<open>x && y\<close> and \<^verbatim>\<open>x || y\<close> test.\<close>

fun ToBoolean :: "jsval \<Rightarrow> bool" where
  "ToBoolean JUndefined = False"
| "ToBoolean JNull = False"
| "ToBoolean (JBool b) = b"
| "ToBoolean (JNum n) = (n \<noteq> 0)"
| "ToBoolean JNaN = False"
| "ToBoolean (JStr s) = (s \<noteq> [])"
| "ToBoolean (JArr xs) = True"
| "ToBoolean (JObj ps) = True"

subsection \<open>Number to string\<close>

definition digit_char :: "nat \<Rightarrow> char" where
  "digit_char d = ''0123456789'' ! d"

fun dec :: "nat \<Rightarrow> string" where
  "dec n = (if n < 10 then [digit_char n] else dec (n div 10) @ [digit_char (n mod 10)])"

declare dec.simps [simp del]

text \<open>
  \<open>Number.prototype.toString\<close> on the integers JavaScript prints in full, digit by
  digit (absolute value below \<open>10^21\<close>; a timestamp and a database id are).
\<close>

definition Number_toString :: "int \<Rightarrow> string" where
  "Number_toString i = (if i < 0 then CHR ''-'' # dec (nat (- i)) else dec (nat i))"

text \<open>Reading a decimal numeral back, and the characters it is made of.\<close>

definition is_digit :: "char \<Rightarrow> bool" where
  "is_digit c = (c \<in> set ''0123456789'')"

definition digit_val :: "char \<Rightarrow> nat" where
  "digit_val c = of_char c - 48"

definition undec :: "string \<Rightarrow> nat" where
  "undec s = foldl (\<lambda>a c. 10 * a + digit_val c) 0 s"

subsection \<open>Strings, arrays and objects\<close>

fun join :: "string \<Rightarrow> string list \<Rightarrow> string" where
  "join sep [] = []"
| "join sep [x] = x"
| "join sep (x # y # ys) = x @ sep @ join sep (y # ys)"

text \<open>\<^verbatim>\<open>s.split(c)\<close> for a one-character separator: \<^verbatim>\<open>''.split(c)\<close> is \<^verbatim>\<open>['']\<close>.\<close>

fun split_on :: "char \<Rightarrow> string \<Rightarrow> string list" where
  "split_on c [] = [[]]"
| "split_on c (x # xs) =
     (if x = c then [] # split_on c xs
      else (case split_on c xs of [] \<Rightarrow> [[x]] | y # ys \<Rightarrow> (x # y) # ys))"

text \<open>
  \<^verbatim>\<open>s.trim()\<close> on the ASCII white space and line terminators (tab, line feed, vertical
  tab, form feed, carriage return, space).
\<close>

definition is_space :: "char \<Rightarrow> bool" where
  "is_space c = (c \<in> set [CHR 0x09, CHR 0x0A, CHR 0x0B, CHR 0x0C, CHR 0x0D, CHR '' ''])"

definition trim :: "string \<Rightarrow> string" where
  "trim s = rev (dropWhile is_space (rev (dropWhile is_space s)))"

text \<open>
  ECMAScript \<open>ToString\<close>, the conversion a template literal applies to each
  substitution. \<open>Array.prototype.toString\<close> joins the elements with commas and renders
  \<open>null\<close> and \<open>undefined\<close> elements as the empty string.
\<close>

fun ToString :: "jsval \<Rightarrow> string" where
  "ToString JUndefined = ''undefined''"
| "ToString JNull = ''null''"
| "ToString (JBool b) = (if b then ''true'' else ''false'')"
| "ToString (JNum n) = Number_toString n"
| "ToString JNaN = ''NaN''"
| "ToString (JStr s) = s"
| "ToString (JArr xs) =
     join '','' (map (\<lambda>x. if x = JUndefined \<or> x = JNull then [] else ToString x) xs)"
| "ToString (JObj ps) = ''[object Object]''"

text \<open>
  Reading a property, \<^verbatim>\<open>v[k]\<close>, for the keys the source reads (\<open>name\<close>, \<open>dist-tags\<close>,
  \<open>rc\<close>), none of which is a built-in property of a string, number, boolean or array:
  \<open>undefined\<close> and \<open>null\<close> throw a TypeError, an object yields the property or
  \<open>undefined\<close>, every other value yields \<open>undefined\<close>.
\<close>

fun get_prop :: "jsval \<Rightarrow> string \<Rightarrow> exn + jsval" where
  "get_prop JUndefined k =
     Inl (TypeError (''Cannot read properties of undefined (reading '' @ k @ '')''))"
| "get_prop JNull k =
     Inl (TypeError (''Cannot read properties of null (reading '' @ k @ '')''))"
| "get_prop (JObj ps) k = Inr (case map_of ps k of None \<Rightarrow> JUndefined | Some v \<Rightarrow> v)"
| "get_prop v k = Inr JUndefined"

text \<open>
  Writing a property in an object literal, \<^verbatim>\<open>{...ps, k: v}\<close>: an existing key keeps its
  place and takes the new value, a new key goes last.
\<close>

fun set_prop :: "string \<Rightarrow> jsval \<Rightarrow> (string \<times> jsval) list \<Rightarrow> (string \<times> jsval) list" where
  "set_prop k v [] = [(k, v)]"
| "set_prop k v ((k', v') # ps) =
     (if k = k' then (k, v) # ps else (k', v') # set_prop k v ps)"

text \<open>
  Object spread, \<^verbatim>\<open>{...v}\<close>: the own enumerable properties of \<open>v\<close>; the indices for an
  array or a string, nothing for \<open>undefined\<close>, \<open>null\<close>, a number or a boolean.
\<close>

fun spread :: "jsval \<Rightarrow> (string \<times> jsval) list" where
  "spread (JObj ps) = ps"
| "spread (JArr xs) = zip (map dec [0..<length xs]) xs"
| "spread (JStr s) = zip (map dec [0..<length s]) (map (\<lambda>c. JStr [c]) s)"
| "spread v = []"

section \<open>Effects: the outside world and the trace\<close>

text \<open>
  Every collaborator outside the two source files (the memjs client, the Prisma model,
  \<open>JSON\<close>, \<open>execSync\<close>) is a parameter: a function on a world \<open>'w\<close> that returns either
  a thrown \<open>exn\<close> (\<open>Inl\<close>) or a value (\<open>Inr\<close>) and the new world. The model records what the
  code does to its surroundings in a trace: the console lines the source prints and one
  event for each call of a collaborator.
\<close>

record cache_options =
  expires :: "int option"

datatype arg = AStr string | AVal jsval | AExn exn

datatype event =
    Console_debug "arg list"
  | Console_log "arg list"
  | Console_error "arg list"
  | Memjs_create
  | Memjs_get string
  | Memjs_set string "string option" cache_options
  | Input_call
  | Model_findFirst jsval
  | Model_call string jsval
  | ExecSync string

record 'w st =
  world :: 'w
  trace :: "event list"

type_synonym ('w, 'a) ext = "'w \<Rightarrow> (exn + 'a) \<times> 'w"

definition emit :: "event \<Rightarrow> 'w st \<Rightarrow> 'w st" where
  "emit ev s = s\<lparr>trace := trace s @ [ev]\<rparr>"

definition call :: "event \<Rightarrow> ('w, 'a) ext \<Rightarrow> 'w st \<Rightarrow> (exn + 'a) \<times> 'w st" where
  "call ev f s =
     (case f (world s) of (r, w') \<Rightarrow> (r, \<lparr>world = w', trace = trace s @ [ev]\<rparr>))"

text \<open>
  \<open>JSON.parse\<close> and \<open>JSON.stringify\<close> are pure; \<open>JSON.stringify\<close> yields a string or
  \<open>undefined\<close> (\<open>None\<close>).
\<close>

record js_env =
  JSON_parse :: "string \<Rightarrow> exn + jsval"
  JSON_stringify :: "jsval \<Rightarrow> exn + string option"

section \<open>CacheFacade.cache\<close>

text \<open>
  \<open>memjs_create\<close> is \<^verbatim>\<open>(await import('memjs')).Client.create()\<close>; \<open>memjs_get\<close> yields
  \<^verbatim>\<open>result.value\<close>, a Buffer (\<open>Some\<close>, truthy even when empty) or \<open>null\<close> (\<open>None\<close>).
\<close>

record 'w cache_env = js_env +
  memjs_create :: "('w, unit) ext"
  memjs_get :: "string \<Rightarrow> ('w, string option) ext"
  memjs_set :: "string \<Rightarrow> string option \<Rightarrow> cache_options \<Rightarrow> ('w, unit) ext"

text \<open>
  The handler of the inner \<^verbatim>\<open>try\<close> (source lines 79-82):
  \<^verbatim>\<open>console.error('Error in cache SET', e); return data || (await input())\<close>.
\<close>

definition cache_set_catch ::
  "('w, jsval) ext \<Rightarrow> jsval \<Rightarrow> exn \<Rightarrow> 'w st \<Rightarrow> (exn + jsval) \<times> 'w st" where
  "cache_set_catch input data e s =
     (let s' = emit (Console_error [AStr ''Error in cache SET'', AExn e]) s
      in if ToBoolean data then (Inr data, s') else call Input_call input s')"

text \<open>
  The inner \<^verbatim>\<open>try\<close> with its handler (source lines 72-82). \<open>data\<close> is \<open>undefined\<close> until
  \<open>input()\<close> has returned; \<^verbatim>\<open>options || {}\<close> is the options object or an empty one.
\<close>

definition cache_miss ::
  "'w cache_env \<Rightarrow> string \<Rightarrow> ('w, jsval) ext \<Rightarrow> cache_options option \<Rightarrow> 'w st
     \<Rightarrow> (exn + jsval) \<times> 'w st" where
  "cache_miss env key input options s =
     (let s1 = emit (Console_debug [AStr (''Cache MISS '' @ key)]) s
      in case call Input_call input s1 of
           (Inl e, s2) \<Rightarrow> cache_set_catch input JUndefined e s2
         | (Inr data, s2) \<Rightarrow>
             (case JSON_stringify env data of
                Inl e \<Rightarrow> cache_set_catch input data e s2
              | Inr text \<Rightarrow>
                  (let opts = (case options of None \<Rightarrow> \<lparr>expires = None\<rparr> | Some o' \<Rightarrow> o')
                   in case call (Memjs_set key text opts) (memjs_set env key text opts) s2 of
                        (Inl e, s3) \<Rightarrow> cache_set_catch input data e s3
                      | (Inr u, s3) \<Rightarrow> (Inr data, s3))))"

text \<open>The body of the outer \<^verbatim>\<open>try\<close> (source lines 62-82).\<close>

definition cache_try ::
  "'w cache_env \<Rightarrow> string \<Rightarrow> ('w, jsval) ext \<Rightarrow> cache_options option \<Rightarrow> 'w st
     \<Rightarrow> (exn + jsval) \<times> 'w st" where
  "cache_try env key input options s =
     (case call Memjs_create (memjs_create env) s of
        (Inl e, s1) \<Rightarrow> (Inl e, s1)
      | (Inr u, s1) \<Rightarrow>
          (case call (Memjs_get key) (memjs_get env key) s1 of
             (Inl e, s2) \<Rightarrow> (Inl e, s2)
           | (Inr None, s2) \<Rightarrow> cache_miss env key input options s2
           | (Inr (Some buf), s2) \<Rightarrow>
               (JSON_parse env buf, emit (Console_debug [AStr (''Cache HIT '' @ key)]) s2)))"

text \<open>
  \<open>cache\<close> (source lines 56-87): the outer handler logs and returns
  \<^verbatim>\<open>await input()\<close>, whose own failure is the caller's.
\<close>

definition cache ::
  "'w cache_env \<Rightarrow> string \<Rightarrow> ('w, jsval) ext \<Rightarrow> cache_options option \<Rightarrow> 'w st
     \<Rightarrow> (exn + jsval) \<times> 'w st" where
  "cache env key input options s =
     (case cache_try env key input options s of
        (Inl e, s') \<Rightarrow>
          call Input_call input (emit (Console_error [AStr ''Error in cache GET'', AExn e]) s')
      | (Inr v, s') \<Rightarrow> (Inr v, s'))"

text \<open>How often the producer was invoked, read off a trace.\<close>

definition invocations :: "event list \<Rightarrow> nat" where
  "invocations tr = length (filter (\<lambda>ev. ev = Input_call) tr)"

section \<open>CacheFacade.cacheLatest\<close>

text \<open>
  The record \<open>findFirst\<close> resolves to under \<^verbatim>\<open>select: { id: true, updatedAt: true }\<close>;
  \<open>latest_updatedAt\<close> is the Date as \<^verbatim>\<open>getTime()\<close> reads it, in milliseconds since the
  epoch.
\<close>

record latest =
  latest_id :: jsval
  latest_updatedAt :: int

text \<open>
  The Prisma model: \<open>findFirst\<close> resolves to a record or to \<open>null\<close> (\<open>None\<close>);
  \<open>operation m name\<close> is \<^verbatim>\<open>model[name]\<close>, \<open>None\<close> when the model has no such function.
\<close>

record 'w prisma_model =
  findFirst :: "jsval \<Rightarrow> ('w, latest option) ext"
  operation :: "string \<Rightarrow> (jsval \<Rightarrow> ('w, jsval) ext) option"

text \<open>\<^verbatim>\<open>CacheLatestOptions extends CacheOptions\<close>, with the optional \<open>model\<close>.\<close>

record 'w cacheLatest_options = cache_options +
  model :: "'w prisma_model option"

text \<open>A property key: \<^verbatim>\<open>Object.keys(query)[0]\<close> is \<open>undefined\<close> for an empty query.\<close>

definition property_key :: "string option \<Rightarrow> string" where
  "property_key k = (case k of None \<Rightarrow> ''undefined'' | Some name \<Rightarrow> name)"

text \<open>\<^verbatim>\<open>model[queryFunction](conditions)\<close>\<close>

definition model_call ::
  "'w prisma_model option \<Rightarrow> string option \<Rightarrow> jsval \<Rightarrow> ('w, jsval) ext" where
  "model_call m queryFunction conditions w =
     (case m of
        None \<Rightarrow> (Inl (TypeError ''Cannot read properties of undefined''), w)
      | Some md \<Rightarrow>
          (case operation md (property_key queryFunction) of
             None \<Rightarrow> (Inl (TypeError ''model[queryFunction] is not a function''), w)
           | Some f \<Rightarrow> f conditions w))"

text \<open>
  The argument of the probe:
  \<^verbatim>\<open>{ ...conditions, orderBy: { updatedAt: 'desc' }, select: { id: true, updatedAt: true } }\<close>
\<close>

definition findFirst_args :: "jsval \<Rightarrow> jsval" where
  "findFirst_args conditions =
     JObj (set_prop ''select'' (JObj [(''id'', JBool True), (''updatedAt'', JBool True)])
            (set_prop ''orderBy'' (JObj [(''updatedAt'', JStr ''desc'')])
              (spread conditions)))"

text \<open>\<^verbatim>\<open>`${key}-${latest.id}-${latest.updatedAt.getTime()}`\<close>\<close>

definition cacheKey_of :: "string \<Rightarrow> latest \<Rightarrow> string" where
  "cacheKey_of key l =
     key @ ''-'' @ ToString (latest_id l) @ ''-'' @ ToString (JNum (latest_updatedAt l))"

text \<open>
  The handler of \<open>cacheLatest\<close> (source lines 138-141): it logs and returns the direct
  call, which nothing surrounds.
\<close>

definition cacheLatest_catch ::
  "'w prisma_model option \<Rightarrow> string option \<Rightarrow> jsval \<Rightarrow> exn \<Rightarrow> 'w st
     \<Rightarrow> (exn + jsval) \<times> 'w st" where
  "cacheLatest_catch m queryFunction conditions e s =
     call (Model_call (property_key queryFunction) conditions)
       (model_call m queryFunction conditions)
       (emit (Console_error [AStr ''Error in cacheLatest'', AExn e]) s)"

text \<open>
  \<^verbatim>\<open>Object.keys(query)[0]\<close> and \<^verbatim>\<open>query[queryFunction]\<close>, on the query object as
  \<open>Object.keys\<close> enumerates it.
\<close>

definition queryFunction_of :: "(string \<times> jsval) list \<Rightarrow> string option" where
  "queryFunction_of query = (case query of [] \<Rightarrow> None | (k, v) # others \<Rightarrow> Some k)"

definition conditions_of :: "(string \<times> jsval) list \<Rightarrow> jsval" where
  "conditions_of query =
     (case map_of query (property_key (queryFunction_of query)) of
        None \<Rightarrow> JUndefined
      | Some c \<Rightarrow> c)"

text \<open>
  \<open>cacheLatest\<close> (source lines 116-142). Inside the \<^verbatim>\<open>try\<close>, a missing \<open>model\<close>, a
  rejected \<open>findFirst\<close> and a \<open>null\<close> record (\<^verbatim>\<open>latest.id\<close> throws) reach the handler;
  the promise of \<open>cache\<close> is returned without \<^verbatim>\<open>await\<close>, so its rejection does not.
\<close>

definition cacheLatest ::
  "'w cache_env \<Rightarrow> string \<Rightarrow> 'w cacheLatest_options \<Rightarrow> (string \<times> jsval) list \<Rightarrow> 'w st
     \<Rightarrow> (exn + jsval) \<times> 'w st" where
  "cacheLatest env key options query s =
     (let rest = cache_options.truncate options;
          queryFunction = queryFunction_of query;
          conditions = conditions_of query
      in case model options of
           None \<Rightarrow>
             cacheLatest_catch (model options) queryFunction conditions
               (TypeError ''Cannot read properties of undefined (reading findFirst)'') s
         | Some m \<Rightarrow>
             (case call (Model_findFirst (findFirst_args conditions))
                     (findFirst m (findFirst_args conditions)) s of
                (Inl e, s1) \<Rightarrow> cacheLatest_catch (model options) queryFunction conditions e s1
              | (Inr None, s1) \<Rightarrow>
                  cacheLatest_catch (model options) queryFunction conditions
                    (TypeError ''Cannot read properties of null (reading id)'') s1
              | (Inr (Some l), s1) \<Rightarrow>
                  cache env (cacheKey_of key l)
                    (model_call (model options) queryFunction conditions) (Some rest) s1))"

text \<open>
  The ids of one column: both integers, or both strings.
\<close>

fun is_integer_id :: "jsval \<Rightarrow> bool" where
  "is_integer_id (JNum i) = True"
| "is_integer_id v = False"

fun is_string_id :: "jsval \<Rightarrow> bool" where
  "is_string_id (JStr a) = True"
| "is_string_id v = False"

definition same_kind :: "jsval \<Rightarrow> jsval \<Rightarrow> bool" where
  "same_kind a b = (is_integer_id a \<and> is_integer_id b \<or> is_string_id a \<and> is_string_id b)"

text \<open>
  The one way two latest records run into each other: \<open>l\<close> was updated \<open>n\<close>
  milliseconds before the epoch, \<open>l'\<close> was updated \<open>n\<close> milliseconds after it, and the
  id of \<open>l'\<close> prints as the id of \<open>l\<close> followed by a dash.
\<close>

definition collide :: "latest \<Rightarrow> latest \<Rightarrow> bool" where
  "collide l l' =
     (latest_updatedAt l < 0 \<and> latest_updatedAt l' = - latest_updatedAt l
      \<and> ToString (latest_id l') = ToString (latest_id l) @ ''-'')"

text \<open>The calls of the cache client, read off a trace.\<close>

fun memjs_calls :: "event list \<Rightarrow> nat" where
  "memjs_calls [] = 0"
| "memjs_calls (Memjs_create # tr) = Suc (memjs_calls tr)"
| "memjs_calls (Memjs_get k # tr) = Suc (memjs_calls tr)"
| "memjs_calls (Memjs_set k t opts # tr) = Suc (memjs_calls tr)"
| "memjs_calls (ev # tr) = memjs_calls tr"

section \<open>VersionReporter\<close>

record 'w report_env = js_env +
  execSync :: "string \<Rightarrow> ('w, string) ext"

text \<open>\<^verbatim>\<open>`yarn npm info ${packageName} --json`\<close>\<close>

definition npm_info_cmd :: "jsval \<Rightarrow> string" where
  "npm_info_cmd packageName = ''yarn npm info '' @ ToString packageName @ '' --json''"

text \<open>The body of the \<^verbatim>\<open>try\<close> in the loop (source lines 26-37).\<close>

definition report_try :: "'w report_env \<Rightarrow> jsval \<Rightarrow> 'w st \<Rightarrow> (exn + unit) \<times> 'w st" where
  "report_try env packageName s =
     (case call (ExecSync (npm_info_cmd packageName))
             (execSync env (npm_info_cmd packageName)) s of
        (Inl e, s1) \<Rightarrow> (Inl e, s1)
      | (Inr packageInfoJson, s1) \<Rightarrow>
          (case JSON_parse env packageInfoJson of
             Inl e \<Rightarrow> (Inl e, s1)
           | Inr packageInfo \<Rightarrow>
               (case get_prop packageInfo ''dist-tags'' of
                  Inl e \<Rightarrow> (Inl e, s1)
                | Inr tags \<Rightarrow>
                    (if ToBoolean tags then
                       (case get_prop tags ''rc'' of
                          Inl e \<Rightarrow> (Inl e, s1)
                        | Inr rc \<Rightarrow>
                            (if ToBoolean rc then
                               (Inr (),
                                emit (Console_log [AStr (''Latest RC version for ''
                                  @ ToString packageName @ '': '' @ ToString rc)]) s1)
                             else
                               (Inr (),
                                emit (Console_log [AStr (''No RC version found for ''
                                  @ ToString packageName)]) s1)))
                     else
                       (Inr (),
                        emit (Console_log [AStr (''No RC version found for ''
                          @ ToString packageName)]) s1)))))"

text \<open>The \<^verbatim>\<open>try\<close> with its handler (source lines 25-43): one iteration of the loop.\<close>

definition report_one :: "'w report_env \<Rightarrow> jsval \<Rightarrow> 'w st \<Rightarrow> (exn + unit) \<times> 'w st" where
  "report_one env packageName s =
     (case report_try env packageName s of
        (Inl e, s1) \<Rightarrow>
          (Inr (),
           emit (Console_error [AStr (''Error fetching information for ''
             @ ToString packageName @ '':''), AVal (JStr (message e))]) s1)
      | (Inr u, s1) \<Rightarrow> (Inr (), s1))"

text \<open>
  \<^verbatim>\<open>for (const packageName of workspacePackages)\<close>: an iteration that throws ends the
  loop.
\<close>

fun for_packages :: "'w report_env \<Rightarrow> jsval list \<Rightarrow> 'w st \<Rightarrow> (exn + unit) \<times> 'w st" where
  "for_packages env [] s = (Inr (), s)"
| "for_packages env (packageName # others) s =
     (case report_one env packageName s of
        (Inl e, s1) \<Rightarrow> (Inl e, s1)
      | (Inr u, s1) \<Rightarrow> for_packages env others s1)"

text \<open>\<^verbatim>\<open>.map((workspace) => workspace.name)\<close>\<close>

fun map_name :: "jsval list \<Rightarrow> exn + jsval list" where
  "map_name [] = Inr []"
| "map_name (workspace # others) =
     (case get_prop workspace ''name'' of
        Inl e \<Rightarrow> Inl e
      | Inr name \<Rightarrow> (case map_name others of Inl e \<Rightarrow> Inl e | Inr names \<Rightarrow> Inr (name # names)))"

text \<open>The body of \<open>main\<close> (source lines 5-44).\<close>

definition main_body :: "'w report_env \<Rightarrow> 'w st \<Rightarrow> (exn + unit) \<times> 'w st" where
  "main_body env s =
     (case call (ExecSync ''yarn workspaces list --json'')
             (execSync env ''yarn workspaces list --json'') s of
        (Inl e, s1) \<Rightarrow> (Inl e, s1)
      | (Inr out, s1) \<Rightarrow>
          (let workspaceListJson = ''['' @ join '','' (split_on (CHR 0x0A) (trim out)) @ '']'';
               s2 = emit (Console_log
                      [AVal (JObj [(''workspaceListJson'', JStr workspaceListJson)])]) s1
           in case JSON_parse env workspaceListJson of
                Inl e \<Rightarrow> (Inl e, s2)
              | Inr (JArr workspaces) \<Rightarrow>
                  (case map_name workspaces of
                     Inl e \<Rightarrow> (Inl e, s2)
                   | Inr workspacePackages \<Rightarrow>
                       for_packages env workspacePackages
                         (emit (Console_log
                            [AStr ''Found packages:'', AVal (JArr workspacePackages)]) s2))
              | Inr v \<Rightarrow> (Inl (TypeError ''JSON.parse(...).map is not a function''), s2)))"

text \<open>\<^verbatim>\<open>main().catch((error) => { console.error('An error occurred:', error) })\<close>\<close>

definition main :: "'w report_env \<Rightarrow> 'w st \<Rightarrow> 'w st" where
  "main env s =
     (case main_body env s of
        (Inl e, s1) \<Rightarrow> emit (Console_error [AStr ''An error occurred:'', AExn e]) s1
      | (Inr u, s1) \<Rightarrow> s1)"

text \<open>The commands run and the console lines printed, read off a trace.\<close>

fun commands :: "event list \<Rightarrow> string list" where
  "commands [] = []"
| "commands (ExecSync c # tr) = c # commands tr"
| "commands (ev # tr) = commands tr"

fun console_lines :: "event list \<Rightarrow> nat" where
  "console_lines [] = 0"
| "console_lines (Console_debug as # tr) = Suc (console_lines tr)"
| "console_lines (Console_log as # tr) = Suc (console_lines tr)"
| "console_lines (Console_error as # tr) = Suc (console_lines tr)"
| "console_lines (ev # tr) = console_lines tr"

section \<open>The cache store and concrete collaborators\<close>

text \<open>
  A world with the cache store in it: the store maps a key to the text written under
  it, and \<open>app\<close> is everything else the producer and the model act on.
\<close>

record 'a store_world =
  store :: "string \<rightharpoonup> string"
  app :: 'a

text \<open>
  Modelled from the spec: the memjs client is not in the repository. The spec (sections
  3 and 6) gives \<^verbatim>\<open>get(key) -> { value: bytes|null }\<close> and
  \<^verbatim>\<open>set(key, valueText, { expires?: seconds }) -> void\<close> on entries
  \<open>(key, serializedValue, ttlSeconds)\<close>, one per key, overwritten by a later \<open>set\<close>.
  Expiry is left out: an entry lives through the calls considered. A value that is
  \<open>undefined\<close> is no text and is refused.
\<close>

definition store_create :: "('a store_world, unit) ext" where
  "store_create w = (Inr (), w)"

definition store_get :: "string \<Rightarrow> ('a store_world, string option) ext" where
  "store_get key w = (Inr (store w key), w)"

definition store_set ::
  "string \<Rightarrow> string option \<Rightarrow> cache_options \<Rightarrow> ('a store_world, unit) ext" where
  "store_set key text opts w =
     (case text of
        None \<Rightarrow> (Inl (TypeError ''value is not a string''), w)
      | Some t \<Rightarrow> (Inr (), w\<lparr>store := (store w)(key \<mapsto> t)\<rparr>))"

definition store_env ::
  "(string \<Rightarrow> exn + jsval) \<Rightarrow> (jsval \<Rightarrow> exn + string option) \<Rightarrow> 'a store_world cache_env" where
  "store_env parse stringify =
     \<lparr>JSON_parse = parse, JSON_stringify = stringify,
      memjs_create = store_create, memjs_get = store_get, memjs_set = store_set\<rparr>"

text \<open>A producer or a model function that acts on \<open>app\<close> and leaves the store alone.\<close>

definition on_app :: "('a, 'r) ext \<Rightarrow> ('a store_world, 'r) ext" where
  "on_app f w = (case f (app w) of (r, a') \<Rightarrow> (r, w\<lparr>app := a'\<rparr>))"

definition app_model ::
  "(jsval \<Rightarrow> ('a, latest option) ext) \<Rightarrow> (string \<Rightarrow> (jsval \<Rightarrow> ('a, jsval) ext) option)
     \<Rightarrow> 'a store_world prisma_model" where
  "app_model ff ms =
     \<lparr>findFirst = (\<lambda>args. on_app (ff args)),
      operation = (\<lambda>name. case ms name of
                          None \<Rightarrow> None | Some f \<Rightarrow> Some (\<lambda>c. on_app (f c)))\<rparr>"

text \<open>
  \<open>JSON.stringify\<close> and \<open>JSON.parse\<close> on the scalars, for the concrete runs below:
  \<open>undefined\<close>, \<open>null\<close>, the booleans, the integers and \<open>NaN\<close> one way, the literals
  \<open>null\<close>, \<open>true\<close>, \<open>false\<close> and the integer numerals the other way. Strings, arrays and
  objects are outside these two functions, which answer them with an error.
\<close>

definition scalar_stringify :: "jsval \<Rightarrow> exn + string option" where
  "scalar_stringify v =
     (case v of
        JUndefined \<Rightarrow> Inr None
      | JNull \<Rightarrow> Inr (Some ''null'')
      | JBool b \<Rightarrow> Inr (Some (if b then ''true'' else ''false''))
      | JNum n \<Rightarrow> Inr (Some (Number_toString n))
      | JNaN \<Rightarrow> Inr (Some ''null'')
      | _ \<Rightarrow> Inl (Exn ''Error'' ''not a scalar''))"

definition is_numeral :: "string \<Rightarrow> bool" where
  "is_numeral d =
     (d \<noteq> [] \<and> list_all is_digit d \<and> (if hd d = CHR ''0'' then d = ''0'' else True))"

definition scalar_parse :: "string \<Rightarrow> exn + jsval" where
  "scalar_parse s =
     (if s = ''null'' then Inr JNull
      else if s = ''true'' then Inr (JBool True)
      else if s = ''false'' then Inr (JBool False)
      else if is_numeral s then Inr (JNum (int (undec s)))
      else if s \<noteq> [] \<and> hd s = CHR ''-'' \<and> is_numeral (tl s)
        then Inr (JNum (- int (undec (tl s))))
      else Inl (Exn ''SyntaxError'' ''Unexpected token''))"

text \<open>The producer of the scenario \<^verbatim>\<open>cache('x', () => 42)\<close>, counting its invocations.\<close>

definition answer :: "(nat, jsval) ext" where
  "answer n = (Inr (JNum 42), Suc n)"

text \<open>The error of a database that is down.\<close>

definition database_down :: exn where
  "database_down = Exn ''Error'' ''database is down''"

text \<open>The error of a cache client that cannot be reached.\<close>

definition ECONNREFUSED :: exn where
  "ECONNREFUSED = Exn ''Error'' ''connect ECONNREFUSED''"

text \<open>A producer that counts its own invocations: it returns 0, then 1, then 2.\<close>

definition counter :: "(nat, jsval) ext" where
  "counter n = (Inr (JNum (int n)), Suc n)"

text \<open>A producer that throws the first \<open>k\<close> times and returns 7 from then on.\<close>

definition flaky :: "nat \<Rightarrow> (nat, jsval) ext" where
  "flaky k n = (if n < k then Inl database_down else Inr (JNum 7), Suc n)"

text \<open>The runs below start from an empty store, with no invocation counted yet.\<close>

definition empty_world :: "nat store_world" where
  "empty_world = \<lparr>store = Map.empty, app = 0\<rparr>"

definition json_env :: "nat store_world cache_env" where
  "json_env = store_env scalar_parse scalar_stringify"

text \<open>The same client with a read, or a write, that throws.\<close>

definition get_fails_env :: "nat store_world cache_env" where
  "get_fails_env = json_env\<lparr>memjs_get := (\<lambda>key w. (Inl ECONNREFUSED, w))\<rparr>"

definition set_fails_env :: "nat store_world cache_env" where
  "set_fails_env = json_env\<lparr>memjs_set := (\<lambda>key text opts w. (Inl ECONNREFUSED, w))\<rparr>"

text \<open>
  A model of posts for the scenario
  \<^verbatim>\<open>cacheLatest('posts', { model }, { count: { where: { isAdmin: true } } })\<close>:
  \<open>findFirst\<close> resolves to the record with id 34, and \<open>count\<close>, the only other
  function, resolves to 3; \<open>app\<close> is the number of times \<open>count\<close> has run.
\<close>

definition admins :: "(string \<times> jsval) list" where
  "admins = [(''count'', JObj [(''where'', JObj [(''isAdmin'', JBool True)])])]"

text \<open>
  The same query with a second entry after it. The model has no \<open>findMany\<close>, so a
  call of the second entry would throw.
\<close>

definition two_entries :: "(string \<times> jsval) list" where
  "two_entries = admins @ [(''findMany'', JObj [(''take'', JNum 10)])]"

definition post_34 :: latest where
  "post_34 = \<lparr>latest_id = JNum 34, latest_updatedAt = 1600345823495\<rparr>"

definition posts_count :: "string \<Rightarrow> (jsval \<Rightarrow> (nat, jsval) ext) option" where
  "posts_count name =
     (if name = ''count'' then Some (\<lambda>c n. (Inr (JNum 3), Suc n)) else None)"

definition posts :: "nat store_world prisma_model" where
  "posts = app_model (\<lambda>args n. (Inr (Some post_34), n)) posts_count"

text \<open>The same model with no matching record, and with a database that is down.\<close>

definition no_posts :: "nat store_world prisma_model" where
  "no_posts = app_model (\<lambda>args n. (Inr None, n)) posts_count"

definition posts_down :: "nat store_world prisma_model" where
  "posts_down =
     app_model (\<lambda>args n. (Inl database_down, n))
       (\<lambda>name. if name = ''count'' then Some (\<lambda>c n. (Inl database_down, Suc n)) else None)"

definition no_posts_down :: "nat store_world prisma_model" where
  "no_posts_down =
     app_model (\<lambda>args n. (Inr None, n))
       (\<lambda>name. if name = ''count'' then Some (\<lambda>c n. (Inl database_down, Suc n)) else None)"

text \<open>
  A registry for three packages: the query for \<open>a\<close> fails, the one for \<open>b\<close> prints
  \<open>null\<close>, the one for \<open>c\<close> prints \<open>42\<close>; the world counts the commands run.
\<close>

definition registry_execSync :: "string \<Rightarrow> (nat, string) ext" where
  "registry_execSync cmd n =
     (if cmd = ''yarn npm info b --json'' then (Inr ''null'', Suc n)
      else if cmd = ''yarn npm info c --json'' then (Inr ''42'', Suc n)
      else (Inl (Exn ''Error'' ''Command failed''), Suc n))"

definition registry_env :: "nat report_env" where
  "registry_env =
     \<lparr>JSON_parse = scalar_parse, JSON_stringify = scalar_stringify,
      execSync = registry_execSync\<rparr>"

text \<open>The record \<open>post_34\<close> after an update one millisecond later.\<close>

definition post_34_updated :: latest where
  "post_34_updated = \<lparr>latest_id = JNum 34, latest_updatedAt = 1600345823496\<rparr>"

section \<open>Decimal numerals\<close>

lemma below_ten: "d < 10 \<Longrightarrow> d \<in> {0, 1, 2, 3, 4, 5, 6, 7, 8, 9 :: nat}"
  by auto

lemma digit_val_digit_char: "d < 10 \<Longrightarrow> digit_val (digit_char d) = d"
  by (drule below_ten) (auto simp: digit_val_def digit_char_def)

lemma is_digit_digit_char: "d < 10 \<Longrightarrow> is_digit (digit_char d)"
  by (drule below_ten) (auto simp: is_digit_def digit_char_def)

lemma dec_digits: "list_all is_digit (dec n)"
proof (induction n rule: dec.induct)
  case (1 n)
  show ?case
  proof (cases "n < 10")
    case True
    then show ?thesis by (subst dec.simps) (simp add: is_digit_digit_char)
  next
    case False
    with 1 show ?thesis by (subst dec.simps) (simp add: is_digit_digit_char)
  qed
qed

lemma dec_nonempty: "dec n \<noteq> []"
  by (subst dec.simps) simp

lemma undec_snoc: "undec (s @ [c]) = 10 * undec s + digit_val c"
  by (simp add: undec_def)

lemma undec_dec: "undec (dec n) = n"
proof (induction n rule: dec.induct)
  case (1 n)
  show ?case
  proof (cases "n < 10")
    case True
    then show ?thesis by (subst dec.simps) (simp add: undec_def digit_val_digit_char)
  next
    case False
    with 1 show ?thesis by (subst dec.simps) (simp add: undec_snoc digit_val_digit_char)
  qed
qed

lemma dec_inj: "dec n = dec m \<Longrightarrow> n = m"
  by (metis undec_dec)

lemma not_digit_dash: "\<not> is_digit CHR ''-''"
  by (simp add: is_digit_def)

lemma hd_dec_not_dash: "hd (dec n) \<noteq> CHR ''-''"
  using dec_digits [of n] dec_nonempty [of n] not_digit_dash
  by (cases "dec n") auto

lemma last_dec_not_dash: "last (dec n) \<noteq> CHR ''-''"
proof -
  have "is_digit (last (dec n))"
    using dec_digits [of n] dec_nonempty [of n] by (simp add: list_all_iff)
  then show ?thesis using not_digit_dash by auto
qed

lemma Number_toString_inj: "Number_toString i = Number_toString j \<Longrightarrow> i = j"
proof -
  assume a: "Number_toString i = Number_toString j"
  show "i = j"
  proof (cases "i < 0"; cases "j < 0")
    assume "i < 0" "j < 0"
    with a have "dec (nat (- i)) = dec (nat (- j))" by (simp add: Number_toString_def)
    then have "nat (- i) = nat (- j)" by (rule dec_inj)
    with \<open>i < 0\<close> \<open>j < 0\<close> show ?thesis by simp
  next
    assume "i < 0" "\<not> j < 0"
    with a have "CHR ''-'' # dec (nat (- i)) = dec (nat j)" by (simp add: Number_toString_def)
    then have "hd (dec (nat j)) = CHR ''-''" by (metis list.sel(1))
    with hd_dec_not_dash show ?thesis by simp
  next
    assume "\<not> i < 0" "j < 0"
    with a have "dec (nat i) = CHR ''-'' # dec (nat (- j))" by (simp add: Number_toString_def)
    then have "hd (dec (nat i)) = CHR ''-''" by (metis list.sel(1))
    with hd_dec_not_dash show ?thesis by simp
  next
    assume "\<not> i < 0" "\<not> j < 0"
    with a have "dec (nat i) = dec (nat j)" by (simp add: Number_toString_def)
    then have "nat i = nat j" by (rule dec_inj)
    with \<open>\<not> i < 0\<close> \<open>\<not> j < 0\<close> show ?thesis by simp
  qed
qed

lemma last_Number_toString_not_dash: "last (Number_toString i) \<noteq> CHR ''-''"
  using last_dec_not_dash dec_nonempty by (simp add: Number_toString_def)

text \<open>A text that ends in a dash and digits splits at that dash in one way only.\<close>

lemma split_last_dash:
  assumes "list_all is_digit D" "list_all is_digit D'"
      and "X @ CHR ''-'' # D = X' @ CHR ''-'' # D'"
  shows "X = X' \<and> D = D'"
proof -
  have tw: "takeWhile is_digit (rev E @ CHR ''-'' # Y) = rev E" if "list_all is_digit E" for E Y
    using that by (simp add: takeWhile_tail not_digit_dash list_all_iff)
  from assms(3) have "rev (X @ CHR ''-'' # D) = rev (X' @ CHR ''-'' # D')" by simp
  then have "rev D @ CHR ''-'' # rev X = rev D' @ CHR ''-'' # rev X'" by simp
  then have "takeWhile is_digit (rev D @ CHR ''-'' # rev X)
           = takeWhile is_digit (rev D' @ CHR ''-'' # rev X')" by simp
  then have "rev D = rev D'" using assms(1,2) by (simp add: tw)
  then have "D = D'" by simp
  with assms(3) show ?thesis by simp
qed

text \<open>
  A number after a dash: two such texts are equal when their parts are, or when one
  number is negative, the other is its absolute value, and the part before it ends in
  the dash that the first number carries as its sign.
\<close>

lemma dash_number_eq:
  "(A @ CHR ''-'' # Number_toString t = A' @ CHR ''-'' # Number_toString t') =
     (A = A' \<and> t = t'
      \<or> t < 0 \<and> t' = - t \<and> A' = A @ ''-''
      \<or> t' < 0 \<and> t = - t' \<and> A = A' @ ''-'')"
proof
  assume eq: "A @ CHR ''-'' # Number_toString t = A' @ CHR ''-'' # Number_toString t'"
  let ?sg = "\<lambda>i::int. if i < 0 then ''-'' else []"
  let ?ab = "\<lambda>i::int. dec (nat (if i < 0 then - i else i))"
  have shape: "A @ CHR ''-'' # Number_toString i = (A @ ?sg i) @ CHR ''-'' # ?ab i" for A i
    by (simp add: Number_toString_def)
  from eq have "(A @ ?sg t) @ CHR ''-'' # ?ab t = (A' @ ?sg t') @ CHR ''-'' # ?ab t'"
    by (simp only: shape)
  then have pre: "A @ ?sg t = A' @ ?sg t'" and d: "?ab t = ?ab t'"
    using split_last_dash [OF dec_digits dec_digits] by blast+
  from d have m: "nat (if t < 0 then - t else t) = nat (if t' < 0 then - t' else t')"
    by (rule dec_inj)
  show "A = A' \<and> t = t'
      \<or> t < 0 \<and> t' = - t \<and> A' = A @ ''-''
      \<or> t' < 0 \<and> t = - t' \<and> A = A' @ ''-''"
  proof (cases "t < 0"; cases "t' < 0")
    assume "t < 0" "t' < 0"
    with pre m show ?thesis by simp
  next
    assume "t < 0" "\<not> t' < 0"
    with pre m show ?thesis by (simp add: nat_eq_iff)
  next
    assume "\<not> t < 0" "t' < 0"
    with pre m show ?thesis by (simp add: nat_eq_iff)
  next
    assume "\<not> t < 0" "\<not> t' < 0"
    with pre m show ?thesis by (simp add: nat_eq_iff)
  qed
next
  assume "A = A' \<and> t = t'
      \<or> t < 0 \<and> t' = - t \<and> A' = A @ ''-''
      \<or> t' < 0 \<and> t = - t' \<and> A = A' @ ''-''"
  then show "A @ CHR ''-'' # Number_toString t = A' @ CHR ''-'' # Number_toString t'"
    by (auto simp add: Number_toString_def)
qed

section \<open>Properties of cache\<close>

lemmas cache_defs = cache_def cache_try_def cache_miss_def cache_set_catch_def call_def emit_def

lemmas scenario_defs = json_env_def store_env_def store_create_def store_get_def store_set_def
  empty_world_def on_app_def get_fails_env_def set_fails_env_def

lemmas numeral_defs = Number_toString_def dec.simps digit_char_def

lemma scalar_parse_42: "scalar_parse ''42'' = Inr (JNum 42)"
  by (simp add: scalar_parse_def is_numeral_def is_digit_def undec_def digit_val_def)

lemma scalar_parse_3: "scalar_parse ''3'' = Inr (JNum 3)"
  by (simp add: scalar_parse_def is_numeral_def is_digit_def undec_def digit_val_def)

text \<open>
  C1. If the cache store's read throws, \<open>cache\<close> catches the failure, logs it as
  \<open>Error in cache GET\<close> and returns what one direct invocation of the producer returns, in
  the world that invocation leaves behind. The producer is invoked exactly once, and the
  only error the caller can see is the producer's own.
\<close>

theorem cache_get_throws:
  assumes "memjs_create env (world s) = (Inr (), w1)"
      and "memjs_get env key w1 = (Inl e, w2)"
      and "input w2 = (r, w3)"
  shows "cache env key input options s =
           (r, \<lparr>world = w3,
                trace = trace s @ [Memjs_create, Memjs_get key,
                         Console_error [AStr ''Error in cache GET'', AExn e], Input_call]\<rparr>)
         \<and> invocations (trace (snd (cache env key input options s))) = invocations (trace s) + 1"
  using assms by (simp add: cache_defs invocations_def)

theorem cache_get_throws_witness:
  "memjs_create get_fails_env (world \<lparr>world = empty_world, trace = []\<rparr>) = (Inr (), empty_world)
   \<and> memjs_get get_fails_env ''x'' empty_world = (Inl ECONNREFUSED, empty_world)
   \<and> on_app counter empty_world = (Inr (JNum 0), \<lparr>store = Map.empty, app = 1\<rparr>)
   \<and> cache get_fails_env ''x'' (on_app counter) None \<lparr>world = empty_world, trace = []\<rparr> =
       (Inr (JNum 0), \<lparr>world = \<lparr>store = Map.empty, app = 1\<rparr>,
          trace = [Memjs_create, Memjs_get ''x'',
                   Console_error [AStr ''Error in cache GET'', AExn ECONNREFUSED], Input_call]\<rparr>)"
  using cache_get_throws [of get_fails_env "\<lparr>world = empty_world, trace = []\<rparr>" empty_world
      "''x''" ECONNREFUSED empty_world "on_app counter" "Inr (JNum 0)"
      "\<lparr>store = Map.empty, app = 1\<rparr>" None]
  by (simp add: scenario_defs counter_def)

text \<open>
  The other two faults of the read path, a client that cannot be created and a stored
  text that does not parse, end the same way.
\<close>

lemma cache_create_throws:
  assumes "memjs_create env (world s) = (Inl e, w1)"
      and "input w1 = (r, w2)"
  shows "cache env key input options s =
           (r, \<lparr>world = w2,
                trace = trace s @ [Memjs_create,
                         Console_error [AStr ''Error in cache GET'', AExn e], Input_call]\<rparr>)"
  using assms by (simp add: cache_defs)

lemma cache_hit:
  assumes "memjs_create env (world s) = (Inr (), w1)"
      and "memjs_get env key w1 = (Inr (Some buf), w2)"
  shows "cache env key input options s =
           (case JSON_parse env buf of
              Inr v \<Rightarrow>
                (Inr v, \<lparr>world = w2,
                   trace = trace s @ [Memjs_create, Memjs_get key,
                             Console_debug [AStr (''Cache HIT '' @ key)]]\<rparr>)
            | Inl e \<Rightarrow>
                (case input w2 of (r, w3) \<Rightarrow>
                  (r, \<lparr>world = w3,
                     trace = trace s @ [Memjs_create, Memjs_get key,
                               Console_debug [AStr (''Cache HIT '' @ key)],
                               Console_error [AStr ''Error in cache GET'', AExn e],
                               Input_call]\<rparr>)))"
  using assms by (simp add: cache_defs split: sum.splits prod.splits)

lemma cache_miss_stored:
  assumes "memjs_create env (world s) = (Inr (), w1)"
      and "memjs_get env key w1 = (Inr None, w2)"
      and "input w2 = (Inr v, w3)"
      and "JSON_stringify env v = Inr text"
      and "memjs_set env key text (case options of None \<Rightarrow> \<lparr>expires = None\<rparr> | Some o' \<Rightarrow> o') w3
             = (Inr (), w4)"
  shows "cache env key input options s =
           (Inr v, \<lparr>world = w4,
                trace = trace s @ [Memjs_create, Memjs_get key,
                         Console_debug [AStr (''Cache MISS '' @ key)], Input_call,
                         Memjs_set key text
                           (case options of None \<Rightarrow> \<lparr>expires = None\<rparr> | Some o' \<Rightarrow> o')]\<rparr>)"
  using assms by (simp add: cache_defs)

text \<open>
  Whatever the cache client and \<open>JSON\<close> do, an error that leaves \<open>cache\<close> was thrown by
  the producer.
\<close>

lemma cache_error_is_producers:
  assumes "fst (cache env key input options s) = Inl e"
  shows "\<exists>w. fst (input w) = Inl e"
  using assms
  by (auto simp add: cache_defs Let_def split: prod.splits sum.splits option.splits if_splits)
     (metis fst_conv)+

text \<open>
  C2. With the store empty at \<open>key\<close>, the first call invokes the producer once, writes
  the serialized value under \<open>key\<close> and returns the computed value; a following call with
  the same key, whatever its producer, returns the stored text deserialized and invokes
  no producer. The two values are identical when the value survives
  \<^verbatim>\<open>JSON.stringify -> JSON.parse\<close> (take \<open>v' = v\<close>), which is what the source asks of a
  cached value.
\<close>

theorem cache_miss_then_hit:
  assumes "store w key = None"
      and "input (app w) = (Inr v, a')"
      and "stringify v = Inr (Some stored)"
      and "parse stored = Inr v'"
  shows "cache (store_env parse stringify) key (on_app input) options \<lparr>world = w, trace = tr\<rparr> =
           (Inr v,
            \<lparr>world = w\<lparr>store := (store w)(key \<mapsto> stored), app := a'\<rparr>,
             trace = tr @ [Memjs_create, Memjs_get key,
                       Console_debug [AStr (''Cache MISS '' @ key)], Input_call,
                       Memjs_set key (Some stored)
                         (case options of None \<Rightarrow> \<lparr>expires = None\<rparr> | Some o' \<Rightarrow> o')]\<rparr>)
         \<and> cache (store_env parse stringify) key (on_app input') options'
              \<lparr>world = w\<lparr>store := (store w)(key \<mapsto> stored), app := a'\<rparr>, trace = tr'\<rparr> =
           (Inr v',
            \<lparr>world = w\<lparr>store := (store w)(key \<mapsto> stored), app := a'\<rparr>,
             trace = tr' @ [Memjs_create, Memjs_get key,
                       Console_debug [AStr (''Cache HIT '' @ key)]]\<rparr>)"
  using assms
  by (simp add: cache_defs store_env_def store_create_def store_get_def store_set_def on_app_def)

theorem cache_miss_then_hit_witness:
  "store empty_world ''x'' = None
   \<and> answer (app empty_world) = (Inr (JNum 42), 1)
   \<and> scalar_stringify (JNum 42) = Inr (Some ''42'')
   \<and> scalar_parse ''42'' = Inr (JNum 42)
   \<and> cache json_env ''x'' (on_app answer) None \<lparr>world = empty_world, trace = []\<rparr> =
       (Inr (JNum 42),
        \<lparr>world = \<lparr>store = [''x'' \<mapsto> ''42''], app = 1\<rparr>,
         trace = [Memjs_create, Memjs_get ''x'', Console_debug [AStr ''Cache MISS x''],
                  Input_call, Memjs_set ''x'' (Some ''42'') \<lparr>expires = None\<rparr>]\<rparr>)
   \<and> cache json_env ''x'' (on_app answer) None
         \<lparr>world = \<lparr>store = [''x'' \<mapsto> ''42''], app = 1\<rparr>, trace = []\<rparr> =
       (Inr (JNum 42),
        \<lparr>world = \<lparr>store = [''x'' \<mapsto> ''42''], app = 1\<rparr>,
         trace = [Memjs_create, Memjs_get ''x'', Console_debug [AStr ''Cache HIT x'']]\<rparr>)"
  using cache_miss_then_hit [where w = empty_world and key = "''x''" and input = answer
      and v = "JNum 42" and a' = 1 and stringify = scalar_stringify and stored = "''42''"
      and parse = scalar_parse and v' = "JNum 42" and options = None and tr = "[]"
      and input' = answer and options' = None and tr' = "[]"]
  by (simp add: scenario_defs answer_def scalar_stringify_def numeral_defs scalar_parse_42)

text \<open>
  C3, as the code has it. A producer that throws during its primary invocation on the
  MISS path is inside the inner \<^verbatim>\<open>try\<close>: the error is caught, logged as
  \<open>Error in cache SET\<close>, and the producer is invoked a second time. A second failure is
  caught by the outer handler, logged as \<open>Error in cache GET\<close>, and the producer is
  invoked a third time; only what that third invocation throws reaches the caller.
\<close>

theorem cache_producer_throws:
  assumes "memjs_create env (world s) = (Inr (), w1)"
      and "memjs_get env key w1 = (Inr None, w2)"
      and "input w2 = (Inl e1, w3)"
      and "input w3 = (r2, w4)"
      and "input w4 = (r3, w5)"
  shows "cache env key input options s =
           (case r2 of
              Inr v \<Rightarrow>
                (Inr v, \<lparr>world = w4,
                   trace = trace s @ [Memjs_create, Memjs_get key,
                             Console_debug [AStr (''Cache MISS '' @ key)], Input_call,
                             Console_error [AStr ''Error in cache SET'', AExn e1], Input_call]\<rparr>)
            | Inl e2 \<Rightarrow>
                (r3, \<lparr>world = w5,
                   trace = trace s @ [Memjs_create, Memjs_get key,
                             Console_debug [AStr (''Cache MISS '' @ key)], Input_call,
                             Console_error [AStr ''Error in cache SET'', AExn e1], Input_call,
                             Console_error [AStr ''Error in cache GET'', AExn e2], Input_call]\<rparr>))"
  using assms by (simp add: cache_defs split: sum.splits)

theorem cache_producer_throws_witness:
  "memjs_create json_env (world \<lparr>world = empty_world, trace = []\<rparr>) = (Inr (), empty_world)
   \<and> memjs_get json_env ''x'' empty_world = (Inr None, empty_world)
   \<and> on_app (flaky 3) empty_world = (Inl database_down, \<lparr>store = Map.empty, app = 1\<rparr>)
   \<and> on_app (flaky 3) \<lparr>store = Map.empty, app = 1\<rparr>
       = (Inl database_down, \<lparr>store = Map.empty, app = 2\<rparr>)
   \<and> on_app (flaky 3) \<lparr>store = Map.empty, app = 2\<rparr>
       = (Inl database_down, \<lparr>store = Map.empty, app = 3\<rparr>)
   \<and> cache json_env ''x'' (on_app (flaky 3)) None \<lparr>world = empty_world, trace = []\<rparr> =
       (Inl database_down,
        \<lparr>world = \<lparr>store = Map.empty, app = 3\<rparr>,
         trace = [Memjs_create, Memjs_get ''x'', Console_debug [AStr ''Cache MISS x''],
                  Input_call,
                  Console_error [AStr ''Error in cache SET'', AExn database_down], Input_call,
                  Console_error [AStr ''Error in cache GET'', AExn database_down],
                  Input_call]\<rparr>)"
  using cache_producer_throws [where env = json_env
      and s = "\<lparr>world = empty_world, trace = []\<rparr>" and ?w1.0 = empty_world and key = "''x''"
      and ?w2.0 = empty_world and input = "on_app (flaky 3)" and ?e1.0 = database_down
      and ?w3.0 = "\<lparr>store = Map.empty, app = 1\<rparr>" and ?r2.0 = "Inl database_down"
      and ?w4.0 = "\<lparr>store = Map.empty, app = 2\<rparr>" and ?r3.0 = "Inl database_down"
      and ?w5.0 = "\<lparr>store = Map.empty, app = 3\<rparr>" and options = None]
  by (simp add: scenario_defs flaky_def)

text \<open>
  The claim as the spec states it (the error propagates, the producer is not retried)
  fails for a producer that throws once: \<open>cache\<close> returns 7 after two invocations.
\<close>

theorem cache_producer_throws_counterexample:
  "fst (on_app (flaky 1) empty_world) = Inl database_down
   \<and> fst (cache json_env ''x'' (on_app (flaky 1)) None \<lparr>world = empty_world, trace = []\<rparr>)
       = Inr (JNum 7)
   \<and> invocations (trace (snd (cache json_env ''x'' (on_app (flaky 1)) None
        \<lparr>world = empty_world, trace = []\<rparr>))) = 2"
  by (simp add: cache_defs scenario_defs flaky_def invocations_def scalar_stringify_def
      numeral_defs)

text \<open>
  A write that throws after a successful computation is caught and logged as
  \<open>Error in cache SET\<close>. A truthy value is then returned; for a falsy one
  (\<open>0\<close>, the empty string, \<open>false\<close>, \<open>null\<close>, \<open>undefined\<close>, \<open>NaN\<close>),
  \<^verbatim>\<open>data || (await input())\<close> invokes the producer again and returns what that second
  invocation returns.
\<close>

lemma cache_set_throws_truthy:
  assumes "memjs_create env (world s) = (Inr (), w1)"
      and "memjs_get env key w1 = (Inr None, w2)"
      and "input w2 = (Inr v, w3)"
      and "JSON_stringify env v = Inr text"
      and "memjs_set env key text (case options of None \<Rightarrow> \<lparr>expires = None\<rparr> | Some o' \<Rightarrow> o') w3
             = (Inl e, w4)"
      and "ToBoolean v"
  shows "cache env key input options s =
           (Inr v, \<lparr>world = w4,
                trace = trace s @ [Memjs_create, Memjs_get key,
                         Console_debug [AStr (''Cache MISS '' @ key)], Input_call,
                         Memjs_set key text
                           (case options of None \<Rightarrow> \<lparr>expires = None\<rparr> | Some o' \<Rightarrow> o'),
                         Console_error [AStr ''Error in cache SET'', AExn e]]\<rparr>)"
  using assms by (simp add: cache_defs)

lemma cache_try_set_throws_falsy:
  assumes "memjs_create env (world s) = (Inr (), w1)"
      and "memjs_get env key w1 = (Inr None, w2)"
      and "input w2 = (Inr v, w3)"
      and "JSON_stringify env v = Inr text"
      and "memjs_set env key text (case options of None \<Rightarrow> \<lparr>expires = None\<rparr> | Some o' \<Rightarrow> o') w3
             = (Inl e, w4)"
      and "\<not> ToBoolean v"
      and "input w4 = (r, w5)"
  shows "cache_try env key input options s =
           (r, \<lparr>world = w5,
                trace = trace s @ [Memjs_create, Memjs_get key,
                         Console_debug [AStr (''Cache MISS '' @ key)], Input_call,
                         Memjs_set key text
                           (case options of None \<Rightarrow> \<lparr>expires = None\<rparr> | Some o' \<Rightarrow> o'),
                         Console_error [AStr ''Error in cache SET'', AExn e], Input_call]\<rparr>)"
  using assms by (simp add: cache_defs)

text \<open>
  C4, at the input where the code departs from it. The producer reads a counter: it
  returns 0 on the MISS path, the write throws, and because 0 is falsy the producer is
  invoked again: \<open>cache\<close> returns 1, not the computed 0.
\<close>

theorem cache_set_throws_falsy_data:
  "cache set_fails_env ''count'' (on_app counter) None \<lparr>world = empty_world, trace = []\<rparr> =
     (Inr (JNum 1),
      \<lparr>world = \<lparr>store = Map.empty, app = 2\<rparr>,
       trace = [Memjs_create, Memjs_get ''count'',
                Console_debug [AStr ''Cache MISS count''], Input_call,
                Memjs_set ''count'' (Some ''0'') \<lparr>expires = None\<rparr>,
                Console_error [AStr ''Error in cache SET'', AExn ECONNREFUSED], Input_call]\<rparr>)"
  by (simp add: cache_defs scenario_defs counter_def scalar_stringify_def numeral_defs)

section \<open>Properties of cacheLatest\<close>

lemmas cacheLatest_defs = cacheLatest_def cacheLatest_catch_def call_def emit_def

lemma memjs_calls_append: "memjs_calls (xs @ ys) = memjs_calls xs + memjs_calls ys"
  by (induction xs rule: memjs_calls.induct) simp_all

lemma console_lines_append: "console_lines (xs @ ys) = console_lines xs + console_lines ys"
  by (induction xs rule: console_lines.induct) simp_all

lemma commands_append: "commands (xs @ ys) = commands xs @ commands ys"
  by (induction xs rule: commands.induct) simp_all

lemma cacheLatest_fallback:
  assumes "model options = Some m"
      and "findFirst m (findFirst_args (conditions_of query)) (world s) = (probe, w1)"
      and "probe = Inl e \<or> probe = Inr None"
      and "model_call (Some m) (queryFunction_of query) (conditions_of query) w1 = (r, w2)"
  shows "cacheLatest env key options query s =
           (r, \<lparr>world = w2,
                trace = trace s @
                  [Model_findFirst (findFirst_args (conditions_of query)),
                   Console_error [AStr ''Error in cacheLatest'',
                     AExn (case probe of
                             Inl e' \<Rightarrow> e'
                           | Inr x \<Rightarrow> TypeError ''Cannot read properties of null (reading id)'')],
                   Model_call (property_key (queryFunction_of query)) (conditions_of query)]\<rparr>)"
  using assms by (auto simp add: cacheLatest_defs Let_def)

lemma cacheLatest_probe_ok:
  assumes "model options = Some m"
      and "findFirst m (findFirst_args (conditions_of query)) (world s) = (Inr (Some l), w1)"
  shows "cacheLatest env key options query s =
           cache env (cacheKey_of key l)
             (model_call (Some m) (queryFunction_of query) (conditions_of query))
             (Some (cache_options.truncate options))
             \<lparr>world = w1,
              trace = trace s @ [Model_findFirst (findFirst_args (conditions_of query))]\<rparr>"
  using assms by (simp add: cacheLatest_defs Let_def)

text \<open>When two derived keys are equal.\<close>

lemma cacheKey_of_eq:
  "(cacheKey_of key l' = cacheKey_of key l) =
     (ToString (latest_id l') = ToString (latest_id l)
        \<and> latest_updatedAt l' = latest_updatedAt l
      \<or> collide l l' \<or> collide l' l)"
  using dash_number_eq [of "ToString (latest_id l')" "latest_updatedAt l'"
      "ToString (latest_id l)" "latest_updatedAt l"]
  by (auto simp add: cacheKey_of_def collide_def)

lemma ToString_same_kind: "same_kind a b \<Longrightarrow> (ToString a = ToString b) = (a = b)"
  by (cases a; cases b) (auto simp add: same_kind_def dest: Number_toString_inj)

lemma not_collide_same_id: "latest_id l' = latest_id l \<Longrightarrow> \<not> collide l l'"
  by (simp add: collide_def)

lemma not_collide_integer_id: "is_integer_id (latest_id l') \<Longrightarrow> \<not> collide l l'"
proof (cases "latest_id l'")
  case (JNum i)
  have "last (Number_toString i) \<noteq> CHR ''-''" by (rule last_Number_toString_not_dash)
  then have "Number_toString i \<noteq> X @ ''-''" for X by auto
  with JNum show ?thesis by (simp add: collide_def)
qed simp_all

lemma not_collide_same_side:
  "(latest_updatedAt l < 0) = (latest_updatedAt l' < 0) \<Longrightarrow> \<not> collide l l'"
  by (auto simp add: collide_def)

lemma cacheKey_of_same_id:
  assumes "latest_id l' = latest_id l"
  shows "(cacheKey_of key l' = cacheKey_of key l) = (latest_updatedAt l' = latest_updatedAt l)"
  using assms not_collide_same_id [of l' l] not_collide_same_id [of l l']
  by (simp add: cacheKey_of_eq)

lemma cacheKey_of_same_kind:
  assumes "same_kind (latest_id l) (latest_id l')"
  shows "(cacheKey_of key l' = cacheKey_of key l) = (l' = l \<or> collide l l' \<or> collide l' l)"
proof -
  from assms have "same_kind (latest_id l') (latest_id l)"
    by (auto simp add: same_kind_def)
  then have ts:
    "(ToString (latest_id l') = ToString (latest_id l)) = (latest_id l' = latest_id l)"
    by (rule ToString_same_kind)
  have eq: "(l' = l) = (latest_id l' = latest_id l \<and> latest_updatedAt l' = latest_updatedAt l)"
    by auto
  show ?thesis by (simp only: cacheKey_of_eq ts eq)
qed

text \<open>
  C5, as the code has it. When the probe finds a latest record, \<open>cacheLatest\<close> hands
  \<open>cache\<close> the key \<open>{key}-{id}-{epochMillis(updatedAt)}\<close>. The same latest record gives
  the same key. A change of \<open>updatedAt\<close> with the id unchanged gives a different key,
  whatever the id. For ids of one column (both integers or both strings), two records
  give the same key only when they are the same record or when they collide: one was
  updated \<open>n\<close> ms before the epoch, the other \<open>n\<close> ms after it, and the id of the
  second is the id of the first followed by a dash. That never happens for integer ids,
  nor when both timestamps lie on the same side of the epoch, so there every change of
  the id or of \<open>updatedAt\<close> gives a different key.
\<close>

theorem cacheLatest_derived_key:
  assumes "model options = Some m"
      and "findFirst m (findFirst_args (conditions_of query)) (world s) = (Inr (Some l), w1)"
  shows "cacheLatest env key options query s =
           cache env
             (key @ ''-'' @ ToString (latest_id l) @ ''-'' @ Number_toString (latest_updatedAt l))
             (model_call (Some m) (queryFunction_of query) (conditions_of query))
             (Some (cache_options.truncate options))
             \<lparr>world = w1,
              trace = trace s @ [Model_findFirst (findFirst_args (conditions_of query))]\<rparr>
         \<and> (l' = l \<longrightarrow> cacheKey_of key l' = cacheKey_of key l)
         \<and> (latest_id l' = latest_id l \<and> latest_updatedAt l' \<noteq> latest_updatedAt l
              \<longrightarrow> cacheKey_of key l' \<noteq> cacheKey_of key l)
         \<and> (same_kind (latest_id l) (latest_id l')
              \<longrightarrow> (cacheKey_of key l' = cacheKey_of key l) = (l' = l \<or> collide l l' \<or> collide l' l))
         \<and> (same_kind (latest_id l) (latest_id l') \<and> l' \<noteq> l
              \<and> (is_integer_id (latest_id l)
                   \<or> (latest_updatedAt l < 0) = (latest_updatedAt l' < 0))
              \<longrightarrow> cacheKey_of key l' \<noteq> cacheKey_of key l)"
proof (intro conjI impI)
  show "cacheLatest env key options query s =
           cache env
             (key @ ''-'' @ ToString (latest_id l) @ ''-'' @ Number_toString (latest_updatedAt l))
             (model_call (Some m) (queryFunction_of query) (conditions_of query))
             (Some (cache_options.truncate options))
             \<lparr>world = w1,
              trace = trace s @ [Model_findFirst (findFirst_args (conditions_of query))]\<rparr>"
    using cacheLatest_probe_ok [OF assms] by (simp add: cacheKey_of_def)
next
  assume "l' = l"
  then show "cacheKey_of key l' = cacheKey_of key l" by simp
next
  assume "latest_id l' = latest_id l \<and> latest_updatedAt l' \<noteq> latest_updatedAt l"
  then show "cacheKey_of key l' \<noteq> cacheKey_of key l"
    by (simp add: cacheKey_of_same_id)
next
  assume "same_kind (latest_id l) (latest_id l')"
  then show "(cacheKey_of key l' = cacheKey_of key l) = (l' = l \<or> collide l l' \<or> collide l' l)"
    by (rule cacheKey_of_same_kind)
next
  assume a: "same_kind (latest_id l) (latest_id l') \<and> l' \<noteq> l
      \<and> (is_integer_id (latest_id l) \<or> (latest_updatedAt l < 0) = (latest_updatedAt l' < 0))"
  then have kind: "same_kind (latest_id l) (latest_id l')" and neq: "l' \<noteq> l" by simp_all
  have "\<not> collide l l' \<and> \<not> collide l' l"
  proof (cases "is_integer_id (latest_id l)")
    case True
    with kind have "is_integer_id (latest_id l')"
      by (cases "latest_id l"; cases "latest_id l'") (simp_all add: same_kind_def)
    with True show ?thesis by (simp add: not_collide_integer_id)
  next
    case False
    with a have "(latest_updatedAt l < 0) = (latest_updatedAt l' < 0)" by simp
    then show ?thesis
      using not_collide_same_side [of l l'] not_collide_same_side [of l' l] by simp
  qed
  with neq show "cacheKey_of key l' \<noteq> cacheKey_of key l"
    by (simp add: cacheKey_of_same_kind [OF kind])
qed

theorem cacheLatest_derived_key_witness:
  "model \<lparr>expires = None, model = Some posts\<rparr> = Some posts
   \<and> findFirst posts (findFirst_args (conditions_of admins))
        (world \<lparr>world = empty_world, trace = []\<rparr>) = (Inr (Some post_34), empty_world)
   \<and> cacheLatest json_env ''posts'' \<lparr>expires = None, model = Some posts\<rparr> admins
        \<lparr>world = empty_world, trace = []\<rparr> =
      cache json_env ''posts-34-1600345823495''
        (model_call (Some posts) (queryFunction_of admins) (conditions_of admins))
        (Some \<lparr>expires = None\<rparr>)
        \<lparr>world = empty_world,
         trace = [Model_findFirst (findFirst_args (conditions_of admins))]\<rparr>
   \<and> cacheKey_of ''posts'' post_34 = ''posts-34-1600345823495''
   \<and> latest_id post_34_updated = latest_id post_34
   \<and> latest_updatedAt post_34_updated \<noteq> latest_updatedAt post_34
   \<and> same_kind (latest_id post_34) (latest_id post_34_updated)
   \<and> is_integer_id (latest_id post_34)
   \<and> post_34_updated \<noteq> post_34
   \<and> \<not> collide post_34 post_34_updated \<and> \<not> collide post_34_updated post_34
   \<and> cacheKey_of ''posts'' post_34_updated \<noteq> cacheKey_of ''posts'' post_34"
  using cacheLatest_derived_key [where options = "\<lparr>expires = None, model = Some posts\<rparr>"
      and m = posts and query = admins and s = "\<lparr>world = empty_world, trace = []\<rparr>"
      and l = post_34 and ?w1.0 = empty_world and l' = post_34_updated and env = json_env
      and key = "''posts''"]
    cacheLatest_derived_key [where options = "\<lparr>expires = None, model = Some posts\<rparr>"
      and m = posts and query = admins and s = "\<lparr>world = empty_world, trace = []\<rparr>"
      and l = post_34 and ?w1.0 = empty_world and l' = post_34 and env = json_env
      and key = "''posts''"]
  by (simp add: posts_def app_model_def on_app_def empty_world_def same_kind_def collide_def
      post_34_def post_34_updated_def numeral_defs cache_options.truncate_def cacheKey_of_def)

text \<open>
  The claim as the spec states it (any change gives a different key) fails where two
  records collide: the id \<open>a\<close> updated 5 ms before the epoch and the id \<open>a-\<close> updated
  5 ms after it both give \<open>posts-a--5\<close>.
\<close>

theorem cacheKey_of_counterexample:
  "\<lparr>latest_id = JStr ''a'', latest_updatedAt = - 5\<rparr>
     \<noteq> \<lparr>latest_id = JStr ''a-'', latest_updatedAt = 5\<rparr>
   \<and> collide \<lparr>latest_id = JStr ''a'', latest_updatedAt = - 5\<rparr>
        \<lparr>latest_id = JStr ''a-'', latest_updatedAt = 5\<rparr>
   \<and> cacheKey_of ''posts'' \<lparr>latest_id = JStr ''a'', latest_updatedAt = - 5\<rparr>
       = ''posts-a--5''
   \<and> cacheKey_of ''posts'' \<lparr>latest_id = JStr ''a-'', latest_updatedAt = 5\<rparr>
       = ''posts-a--5''"
  by (simp add: cacheKey_of_def collide_def numeral_defs)

text \<open>
  C6. If the probe fails or finds no record, \<open>cacheLatest\<close> logs the error and returns
  the result of the direct call \<open>model[operationName](conditions)\<close>, in the world that
  call leaves behind; the cache client is not called, so nothing is cached.
\<close>

theorem cacheLatest_probe_fails:
  assumes "model options = Some m"
      and "findFirst m (findFirst_args (conditions_of query)) (world s) = (probe, w1)"
      and "probe = Inl e \<or> probe = Inr None"
      and "model_call (Some m) (queryFunction_of query) (conditions_of query) w1 = (r, w2)"
  shows "cacheLatest env key options query s =
           (r, \<lparr>world = w2,
                trace = trace s @
                  [Model_findFirst (findFirst_args (conditions_of query)),
                   Console_error [AStr ''Error in cacheLatest'',
                     AExn (case probe of
                             Inl e' \<Rightarrow> e'
                           | Inr x \<Rightarrow> TypeError ''Cannot read properties of null (reading id)'')],
                   Model_call (property_key (queryFunction_of query)) (conditions_of query)]\<rparr>)
         \<and> memjs_calls (trace (snd (cacheLatest env key options query s)))
             = memjs_calls (trace s)"
  using cacheLatest_fallback [OF assms] by (simp add: memjs_calls_append)

theorem cacheLatest_probe_fails_witness:
  "model \<lparr>expires = None, model = Some no_posts\<rparr> = Some no_posts
   \<and> findFirst no_posts (findFirst_args (conditions_of admins))
        (world \<lparr>world = empty_world, trace = []\<rparr>) = (Inr None, empty_world)
   \<and> model_call (Some no_posts) (queryFunction_of admins) (conditions_of admins) empty_world
        = (Inr (JNum 3), \<lparr>store = Map.empty, app = 1\<rparr>)
   \<and> cacheLatest json_env ''posts'' \<lparr>expires = None, model = Some no_posts\<rparr> admins
        \<lparr>world = empty_world, trace = []\<rparr> =
      (Inr (JNum 3),
       \<lparr>world = \<lparr>store = Map.empty, app = 1\<rparr>,
        trace = [Model_findFirst (findFirst_args (conditions_of admins)),
                 Console_error [AStr ''Error in cacheLatest'',
                   AExn (TypeError ''Cannot read properties of null (reading id)'')],
                 Model_call ''count'' (conditions_of admins)]\<rparr>)"
  using cacheLatest_probe_fails [where options = "\<lparr>expires = None, model = Some no_posts\<rparr>"
      and m = no_posts and query = admins and s = "\<lparr>world = empty_world, trace = []\<rparr>"
      and probe = "Inr None" and ?w1.0 = empty_world and r = "Inr (JNum 3)"
      and ?w2.0 = "\<lparr>store = Map.empty, app = 1\<rparr>" and env = json_env and key = "''posts''"]
  by (simp add: no_posts_def app_model_def on_app_def empty_world_def model_call_def
      posts_count_def admins_def queryFunction_of_def conditions_of_def property_key_def)

text \<open>
  C7. Two calls with the same key and filter, the latest matching record unchanged: the
  first call finds the derived key absent, runs the real query once and stores its
  result; the second call reads the same derived key, returns the stored text
  deserialized, and runs no query (no \<open>Input_call\<close> and no \<open>Model_call\<close> in its trace,
  and \<open>app\<close> changed by the probe alone).
\<close>

theorem cacheLatest_second_call_hit:
  assumes "ff (findFirst_args (conditions_of query)) (app w) = (Inr (Some l), a1)"
      and "ms (property_key (queryFunction_of query)) = Some f"
      and "f (conditions_of query) a1 = (Inr v, a2)"
      and "store w (cacheKey_of key l) = None"
      and "stringify v = Inr (Some stored)"
      and "parse stored = Inr v'"
      and "ff (findFirst_args (conditions_of query)) a2 = (Inr (Some l), a3)"
  shows "cacheLatest (store_env parse stringify) key
             \<lparr>expires = ex, model = Some (app_model ff ms)\<rparr> query \<lparr>world = w, trace = tr\<rparr> =
           (Inr v,
            \<lparr>world = w\<lparr>store := (store w)(cacheKey_of key l \<mapsto> stored), app := a2\<rparr>,
             trace = tr @ [Model_findFirst (findFirst_args (conditions_of query)),
                       Memjs_create, Memjs_get (cacheKey_of key l),
                       Console_debug [AStr (''Cache MISS '' @ cacheKey_of key l)], Input_call,
                       Memjs_set (cacheKey_of key l) (Some stored) \<lparr>expires = ex\<rparr>]\<rparr>)
         \<and> cacheLatest (store_env parse stringify) key
             \<lparr>expires = ex, model = Some (app_model ff ms)\<rparr> query
             \<lparr>world = w\<lparr>store := (store w)(cacheKey_of key l \<mapsto> stored), app := a2\<rparr>, trace = tr'\<rparr> =
           (Inr v',
            \<lparr>world = w\<lparr>store := (store w)(cacheKey_of key l \<mapsto> stored), app := a3\<rparr>,
             trace = tr' @ [Model_findFirst (findFirst_args (conditions_of query)),
                       Memjs_create, Memjs_get (cacheKey_of key l),
                       Console_debug [AStr (''Cache HIT '' @ cacheKey_of key l)]]\<rparr>)"
  using assms
  by (simp add: cacheLatest_def Let_def cache_defs store_env_def store_create_def store_get_def
      store_set_def on_app_def app_model_def model_call_def cache_options.truncate_def)

theorem cacheLatest_second_call_hit_witness:
  "(\<lambda>args n. (Inr (Some post_34), n)) (findFirst_args (conditions_of admins)) (app empty_world)
     = (Inr (Some post_34), 0)
   \<and> posts_count (property_key (queryFunction_of admins)) = Some (\<lambda>c n. (Inr (JNum 3), Suc n))
   \<and> store empty_world (cacheKey_of ''posts'' post_34) = None
   \<and> scalar_stringify (JNum 3) = Inr (Some ''3'')
   \<and> scalar_parse ''3'' = Inr (JNum 3)
   \<and> cacheLatest json_env ''posts'' \<lparr>expires = None, model = Some posts\<rparr> admins
        \<lparr>world = empty_world, trace = []\<rparr> =
      (Inr (JNum 3),
       \<lparr>world = \<lparr>store = [''posts-34-1600345823495'' \<mapsto> ''3''], app = 1\<rparr>,
        trace = [Model_findFirst (findFirst_args (conditions_of admins)),
                 Memjs_create, Memjs_get ''posts-34-1600345823495'',
                 Console_debug [AStr ''Cache MISS posts-34-1600345823495''], Input_call,
                 Memjs_set ''posts-34-1600345823495'' (Some ''3'') \<lparr>expires = None\<rparr>]\<rparr>)
   \<and> cacheLatest json_env ''posts'' \<lparr>expires = None, model = Some posts\<rparr> admins
        \<lparr>world = \<lparr>store = [''posts-34-1600345823495'' \<mapsto> ''3''], app = 1\<rparr>, trace = []\<rparr> =
      (Inr (JNum 3),
       \<lparr>world = \<lparr>store = [''posts-34-1600345823495'' \<mapsto> ''3''], app = 1\<rparr>,
        trace = [Model_findFirst (findFirst_args (conditions_of admins)),
                 Memjs_create, Memjs_get ''posts-34-1600345823495'',
                 Console_debug [AStr ''Cache HIT posts-34-1600345823495'']]\<rparr>)"
  using cacheLatest_second_call_hit [where ff = "\<lambda>args n. (Inr (Some post_34), n)"
      and query = admins and w = empty_world and l = post_34 and ?a1.0 = 0
      and ms = posts_count and f = "\<lambda>c n. (Inr (JNum 3), Suc n)" and v = "JNum 3"
      and ?a2.0 = 1 and key = "''posts''" and stringify = scalar_stringify and stored = "''3''"
      and parse = scalar_parse and v' = "JNum 3" and ?a3.0 = 1 and ex = None
      and tr = "[]" and tr' = "[]"]
  by (simp add: posts_def json_env_def empty_world_def posts_count_def admins_def
      queryFunction_of_def conditions_of_def property_key_def cacheKey_of_def post_34_def
      scalar_stringify_def numeral_defs scalar_parse_3)

text \<open>
  C8, as the code has it. The direct call in the handler of \<open>cacheLatest\<close> has nothing
  around it: when the probe fails or finds no record and the direct call fails too, its
  error is the result of \<open>cacheLatest\<close>, and the only line logged is the probe's.
\<close>

theorem cacheLatest_fallback_unguarded:
  assumes "model options = Some m"
      and "findFirst m (findFirst_args (conditions_of query)) (world s) = (probe, w1)"
      and "probe = Inl e \<or> probe = Inr None"
      and "model_call (Some m) (queryFunction_of query) (conditions_of query) w1 = (Inl e', w2)"
  shows "fst (cacheLatest env key options query s) = Inl e'
         \<and> console_lines (trace (snd (cacheLatest env key options query s)))
             = Suc (console_lines (trace s))"
  using cacheLatest_fallback [OF assms] by (simp add: console_lines_append)

theorem cacheLatest_fallback_unguarded_witness:
  "model \<lparr>expires = None, model = Some no_posts_down\<rparr> = Some no_posts_down
   \<and> findFirst no_posts_down (findFirst_args (conditions_of admins))
        (world \<lparr>world = empty_world, trace = []\<rparr>) = (Inr None, empty_world)
   \<and> model_call (Some no_posts_down) (queryFunction_of admins) (conditions_of admins) empty_world
        = (Inl database_down, \<lparr>store = Map.empty, app = 1\<rparr>)
   \<and> fst (cacheLatest json_env ''posts'' \<lparr>expires = None, model = Some no_posts_down\<rparr> admins
        \<lparr>world = empty_world, trace = []\<rparr>) = Inl database_down"
  using cacheLatest_fallback_unguarded [where
      options = "\<lparr>expires = None, model = Some no_posts_down\<rparr>"
      and m = no_posts_down and query = admins and s = "\<lparr>world = empty_world, trace = []\<rparr>"
      and probe = "Inr None" and ?w1.0 = empty_world and e' = database_down
      and ?w2.0 = "\<lparr>store = Map.empty, app = 1\<rparr>" and env = json_env and key = "''posts''"]
  by (simp add: no_posts_down_def app_model_def on_app_def empty_world_def model_call_def
      admins_def queryFunction_of_def conditions_of_def property_key_def)

text \<open>
  The claim as the spec states it (a failure of the direct call is caught) fails when
  the database is down: the probe is rejected, the direct call is rejected, and
  \<open>cacheLatest\<close> is rejected with the direct call's error.
\<close>

theorem cacheLatest_fallback_counterexample:
  "fst (model_call (Some posts_down) (queryFunction_of admins) (conditions_of admins) empty_world)
     = Inl database_down
   \<and> fst (cacheLatest json_env ''posts'' \<lparr>expires = None, model = Some posts_down\<rparr> admins
        \<lparr>world = empty_world, trace = []\<rparr>) = Inl database_down"
  by (simp add: cacheLatest_defs Let_def posts_down_def app_model_def on_app_def empty_world_def
      model_call_def admins_def queryFunction_of_def conditions_of_def property_key_def)

lemma model_call_operation:
  assumes "operation m name = Some f"
  shows "model_call (Some m) (Some name) cond = f cond"
  using assms by (intro ext) (simp add: model_call_def property_key_def)

lemma query_first_entry:
  "queryFunction_of ((name, cond) # qs) = Some name"
  "conditions_of ((name, cond) # qs) = cond"
  by (simp_all add: queryFunction_of_def conditions_of_def property_key_def)

text \<open>
  C10. A query with more than one entry is not refused. The probe receives the
  condition object of the first enumerated entry (under \<open>orderBy\<close> and \<open>select\<close>), and the
  function the model holds under the first entry's name is the one that runs, on that
  same condition object: directly when the probe fails or finds nothing, as the producer
  handed to \<open>cache\<close> otherwise. The entries after the first appear nowhere in what
  \<open>cacheLatest\<close> does, which is what it does with the first entry alone.
\<close>

theorem cacheLatest_first_entry_only:
  assumes "model options = Some m"
      and "findFirst m (findFirst_args cond) (world s) = (probe, w1)"
      and "operation m name = Some f"
      and "f cond w1 = (r, w2)"
  shows "cacheLatest env key options ((name, cond) # qs) s =
           (case probe of
              Inr (Some l) \<Rightarrow>
                cache env (cacheKey_of key l) (f cond) (Some (cache_options.truncate options))
                  \<lparr>world = w1, trace = trace s @ [Model_findFirst (findFirst_args cond)]\<rparr>
            | Inr None \<Rightarrow>
                (r, \<lparr>world = w2,
                     trace = trace s @
                       [Model_findFirst (findFirst_args cond),
                        Console_error [AStr ''Error in cacheLatest'',
                          AExn (TypeError ''Cannot read properties of null (reading id)'')],
                        Model_call name cond]\<rparr>)
            | Inl e \<Rightarrow>
                (r, \<lparr>world = w2,
                     trace = trace s @
                       [Model_findFirst (findFirst_args cond),
                        Console_error [AStr ''Error in cacheLatest'', AExn e],
                        Model_call name cond]\<rparr>))
         \<and> cacheLatest env key options ((name, cond) # qs) s
             = cacheLatest env key options [(name, cond)] s"
proof
  show "cacheLatest env key options ((name, cond) # qs) s =
           (case probe of
              Inr (Some l) \<Rightarrow>
                cache env (cacheKey_of key l) (f cond) (Some (cache_options.truncate options))
                  \<lparr>world = w1, trace = trace s @ [Model_findFirst (findFirst_args cond)]\<rparr>
            | Inr None \<Rightarrow>
                (r, \<lparr>world = w2,
                     trace = trace s @
                       [Model_findFirst (findFirst_args cond),
                        Console_error [AStr ''Error in cacheLatest'',
                          AExn (TypeError ''Cannot read properties of null (reading id)'')],
                        Model_call name cond]\<rparr>)
            | Inl e \<Rightarrow>
                (r, \<lparr>world = w2,
                     trace = trace s @
                       [Model_findFirst (findFirst_args cond),
                        Console_error [AStr ''Error in cacheLatest'', AExn e],
                        Model_call name cond]\<rparr>))"
    using assms
    by (simp add: cacheLatest_defs Let_def query_first_entry model_call_operation property_key_def
        split: sum.splits option.splits)
  show "cacheLatest env key options ((name, cond) # qs) s
      = cacheLatest env key options [(name, cond)] s"
    by (simp add: cacheLatest_def query_first_entry)
qed

theorem cacheLatest_first_entry_only_witness:
  "two_entries = (''count'', JObj [(''where'', JObj [(''isAdmin'', JBool True)])])
                 # [(''findMany'', JObj [(''take'', JNum 10)])]
   \<and> model \<lparr>expires = None, model = Some no_posts\<rparr> = Some no_posts
   \<and> findFirst no_posts
        (findFirst_args (JObj [(''where'', JObj [(''isAdmin'', JBool True)])]))
        (world \<lparr>world = empty_world, trace = []\<rparr>) = (Inr None, empty_world)
   \<and> findFirst posts
        (findFirst_args (JObj [(''where'', JObj [(''isAdmin'', JBool True)])]))
        (world \<lparr>world = empty_world, trace = []\<rparr>) = (Inr (Some post_34), empty_world)
   \<and> operation no_posts ''count'' = Some (\<lambda>c. on_app (\<lambda>n. (Inr (JNum 3), Suc n)))
   \<and> operation posts ''count'' = Some (\<lambda>c. on_app (\<lambda>n. (Inr (JNum 3), Suc n)))
   \<and> operation no_posts ''findMany'' = None
   \<and> cacheLatest json_env ''posts'' \<lparr>expires = None, model = Some no_posts\<rparr> two_entries
        \<lparr>world = empty_world, trace = []\<rparr> =
      (Inr (JNum 3),
       \<lparr>world = \<lparr>store = Map.empty, app = 1\<rparr>,
        trace = [Model_findFirst
                   (JObj [(''where'', JObj [(''isAdmin'', JBool True)]),
                          (''orderBy'', JObj [(''updatedAt'', JStr ''desc'')]),
                          (''select'', JObj [(''id'', JBool True), (''updatedAt'', JBool True)])]),
                 Console_error [AStr ''Error in cacheLatest'',
                   AExn (TypeError ''Cannot read properties of null (reading id)'')],
                 Model_call ''count'' (JObj [(''where'', JObj [(''isAdmin'', JBool True)])])]\<rparr>)
   \<and> cacheLatest json_env ''posts'' \<lparr>expires = None, model = Some posts\<rparr> two_entries
        \<lparr>world = empty_world, trace = []\<rparr> =
      (Inr (JNum 3),
       \<lparr>world = \<lparr>store = [''posts-34-1600345823495'' \<mapsto> ''3''], app = 1\<rparr>,
        trace = [Model_findFirst
                   (JObj [(''where'', JObj [(''isAdmin'', JBool True)]),
                          (''orderBy'', JObj [(''updatedAt'', JStr ''desc'')]),
                          (''select'', JObj [(''id'', JBool True), (''updatedAt'', JBool True)])]),
                 Memjs_create, Memjs_get ''posts-34-1600345823495'',
                 Console_debug [AStr ''Cache MISS posts-34-1600345823495''], Input_call,
                 Memjs_set ''posts-34-1600345823495'' (Some ''3'') \<lparr>expires = None\<rparr>]\<rparr>)"
  using cacheLatest_first_entry_only [where options = "\<lparr>expires = None, model = Some no_posts\<rparr>"
      and m = no_posts and cond = "JObj [(''where'', JObj [(''isAdmin'', JBool True)])]"
      and s = "\<lparr>world = empty_world, trace = []\<rparr>" and probe = "Inr None"
      and ?w1.0 = empty_world and name = "''count''"
      and f = "\<lambda>c. on_app (\<lambda>n. (Inr (JNum 3), Suc n))" and r = "Inr (JNum 3)"
      and ?w2.0 = "\<lparr>store = Map.empty, app = 1\<rparr>" and env = json_env and key = "''posts''"
      and qs = "[(''findMany'', JObj [(''take'', JNum 10)])]"]
    cacheLatest_first_entry_only [where options = "\<lparr>expires = None, model = Some posts\<rparr>"
      and m = posts and cond = "JObj [(''where'', JObj [(''isAdmin'', JBool True)])]"
      and s = "\<lparr>world = empty_world, trace = []\<rparr>" and probe = "Inr (Some post_34)"
      and ?w1.0 = empty_world and name = "''count''"
      and f = "\<lambda>c. on_app (\<lambda>n. (Inr (JNum 3), Suc n))" and r = "Inr (JNum 3)"
      and ?w2.0 = "\<lparr>store = Map.empty, app = 1\<rparr>" and env = json_env and key = "''posts''"
      and qs = "[(''findMany'', JObj [(''take'', JNum 10)])]"]
  by (simp add: two_entries_def admins_def no_posts_def posts_def app_model_def on_app_def
      empty_world_def posts_count_def findFirst_args_def cache_defs json_env_def store_env_def
      store_create_def store_get_def store_set_def cacheKey_of_def post_34_def
      scalar_stringify_def numeral_defs cache_options.truncate_def)

section \<open>Properties of VersionReporter\<close>

text \<open>
  One iteration never throws: it runs the registry query of its package and prints one
  line, whatever the query and the parse do. A query that fails and a text that does not
  parse both leave the body of the \<^verbatim>\<open>try\<close> with the error.
\<close>

lemma report_one_effect:
  "fst (report_one env p s) = Inr ()
   \<and> commands (trace (snd (report_one env p s))) = commands (trace s) @ [npm_info_cmd p]
   \<and> console_lines (trace (snd (report_one env p s))) = Suc (console_lines (trace s))"
  by (simp add: report_one_def report_try_def call_def emit_def commands_append
      console_lines_append split: prod.splits sum.splits)

lemma report_try_query_fails:
  assumes "execSync env (npm_info_cmd p) (world s) = (Inl e, w1)"
  shows "report_try env p s =
           (Inl e, \<lparr>world = w1, trace = trace s @ [ExecSync (npm_info_cmd p)]\<rparr>)"
  using assms by (simp add: report_try_def call_def)

lemma report_try_parse_fails:
  assumes "execSync env (npm_info_cmd p) (world s) = (Inr packageInfoJson, w1)"
      and "JSON_parse env packageInfoJson = Inl e"
  shows "report_try env p s =
           (Inl e, \<lparr>world = w1, trace = trace s @ [ExecSync (npm_info_cmd p)]\<rparr>)"
  using assms by (simp add: report_try_def call_def)

lemma report_one_failure:
  assumes "report_try env p s = (Inl e, s1)"
  shows "report_one env p s =
           (Inr (), emit (Console_error [AStr (''Error fetching information for ''
              @ ToString p @ '':''), AVal (JStr (message e))]) s1)"
  using assms by (simp add: report_one_def)

lemma for_packages_completes: "fst (for_packages env ps s) = Inr ()"
proof (induction ps arbitrary: s)
  case Nil
  show ?case by simp
next
  case (Cons p ps)
  obtain s1 where "report_one env p s = (Inr (), s1)"
    using report_one_effect [of env p s] by (cases "report_one env p s") auto
  with Cons.IH [of s1] show ?case by simp
qed

lemma for_packages_append:
  "for_packages env (ps @ qs) s = for_packages env qs (snd (for_packages env ps s))"
proof (induction ps arbitrary: s)
  case Nil
  show ?case by simp
next
  case (Cons p ps)
  obtain s1 where "report_one env p s = (Inr (), s1)"
    using report_one_effect [of env p s] by (cases "report_one env p s") auto
  with Cons.IH [of s1] show ?case by simp
qed

lemma for_packages_trace:
  "commands (trace (snd (for_packages env ps s))) = commands (trace s) @ map npm_info_cmd ps
   \<and> console_lines (trace (snd (for_packages env ps s))) = console_lines (trace s) + length ps"
proof (induction ps arbitrary: s)
  case Nil
  show ?case by simp
next
  case (Cons p ps)
  obtain s1 where one: "report_one env p s = (Inr (), s1)"
    using report_one_effect [of env p s] by (cases "report_one env p s") auto
  have "commands (trace s1) = commands (trace s) @ [npm_info_cmd p]"
    and "console_lines (trace s1) = Suc (console_lines (trace s))"
    using report_one_effect [of env p s] one by simp_all
  moreover from one have "for_packages env (p # ps) s = for_packages env ps s1" by simp
  ultimately show ?case using Cons.IH [of s1] by simp
qed

text \<open>
  C9. For every sequence of packages the loop ends normally, having run the registry
  query of each package once, in order, and printed one line for each. When the query or
  the parse of a package \<open>p\<close> fails after the packages \<open>ps\<close>, the failure is logged and
  the loop goes on with the packages \<open>qs\<close> that follow.
\<close>

theorem for_packages_isolates_failures:
  "fst (for_packages env ps s) = Inr ()
   \<and> commands (trace (snd (for_packages env ps s))) = commands (trace s) @ map npm_info_cmd ps
   \<and> console_lines (trace (snd (for_packages env ps s))) = console_lines (trace s) + length ps
   \<and> (report_try env p (snd (for_packages env ps s)) = (Inl e, s1) \<longrightarrow>
        for_packages env (ps @ p # qs) s =
          for_packages env qs
            (emit (Console_error [AStr (''Error fetching information for '' @ ToString p @ '':''),
               AVal (JStr (message e))]) s1))"
  by (simp add: for_packages_completes for_packages_trace for_packages_append report_one_failure)

theorem for_packages_isolates_failures_witness:
  "report_try registry_env (JStr ''b'')
       (snd (for_packages registry_env [JStr ''a''] \<lparr>world = 0, trace = []\<rparr>))
     = (Inl (TypeError ''Cannot read properties of null (reading dist-tags)''),
        \<lparr>world = 2,
         trace = [ExecSync ''yarn npm info a --json'',
                  Console_error [AStr ''Error fetching information for a:'',
                    AVal (JStr ''Command failed'')],
                  ExecSync ''yarn npm info b --json'']\<rparr>)
   \<and> for_packages registry_env [JStr ''a'', JStr ''b'', JStr ''c''] \<lparr>world = 0, trace = []\<rparr>
     = (Inr (),
        \<lparr>world = 3,
         trace = [ExecSync ''yarn npm info a --json'',
                  Console_error [AStr ''Error fetching information for a:'',
                    AVal (JStr ''Command failed'')],
                  ExecSync ''yarn npm info b --json'',
                  Console_error [AStr ''Error fetching information for b:'',
                    AVal (JStr ''Cannot read properties of null (reading dist-tags)'')],
                  ExecSync ''yarn npm info c --json'',
                  Console_log [AStr ''No RC version found for c'']]\<rparr>)"
  using for_packages_isolates_failures [where env = registry_env and ps = "[JStr ''a'']"
      and s = "\<lparr>world = 0, trace = []\<rparr>" and p = "JStr ''b''"
      and e = "TypeError ''Cannot read properties of null (reading dist-tags)''"
      and ?s1.0 = "\<lparr>world = 2,
         trace = [ExecSync ''yarn npm info a --json'',
                  Console_error [AStr ''Error fetching information for a:'',
                    AVal (JStr ''Command failed'')],
                  ExecSync ''yarn npm info b --json'']\<rparr>"
      and qs = "[JStr ''c'']"]
  by (simp add: report_one_def report_try_def call_def emit_def registry_env_def
      registry_execSync_def npm_info_cmd_def scalar_parse_def is_numeral_def is_digit_def
      undec_def digit_val_def TypeError_def)

end
